theory Spec2Isabelle
  imports Main "HOL-Library.Char_ord" "HOL-Library.List_Lexorder"
begin

section \<open>Values of the platform\<close>

text \<open>
  A JavaScript string is modelled by the bytes of its UTF-8 encoding (\<open>string\<close>), so the
  model speaks of well-formed strings only. \<open>new Error(msg)\<close> is \<open>Error msg\<close>. A neverthrow
  \<open>Result\<close> is a sum, \<open>Inl\<close> the \<open>err(...)\<close> and \<open>Inr\<close> the \<open>ok(...)\<close>. An async function either
  returns its value or throws: \<open>Returned\<close> and \<open>Thrown\<close>.
\<close>

datatype Error = Error string

datatype 'a Completion = Returned 'a | Thrown Error

subsection \<open>JSON.stringify\<close>

definition hexDigitLower :: "nat \<Rightarrow> char" where
  "hexDigitLower n = ''0123456789abcdef'' ! (n mod 16)"

definition hexDigitUpper :: "nat \<Rightarrow> char" where
  "hexDigitUpper n = ''0123456789ABCDEF'' ! (n mod 16)"

text \<open>The escapes of ECMAScript's QuoteJSONString, byte by byte: the two-character
  escapes, \<open>\u00XX\<close> for the other control characters, every other byte as it is.\<close>

definition quoteJSONChar :: "char \<Rightarrow> string" where
  "quoteJSONChar c =
     (if c = CHR 0x22 then [CHR 0x5C, CHR 0x22]
      else if c = CHR 0x5C then [CHR 0x5C, CHR 0x5C]
      else if c = CHR 0x08 then [CHR 0x5C, CHR ''b'']
      else if c = CHR 0x0C then [CHR 0x5C, CHR ''f'']
      else if c = CHR 0x0A then [CHR 0x5C, CHR ''n'']
      else if c = CHR 0x0D then [CHR 0x5C, CHR ''r'']
      else if c = CHR 0x09 then [CHR 0x5C, CHR ''t'']
      else if (of_char c :: nat) < 0x20
        then [CHR 0x5C, CHR ''u'', CHR ''0'', CHR ''0'',
              hexDigitLower (of_char c div 16), hexDigitLower (of_char c mod 16)]
      else [c])"

definition quoteJSONString :: "string \<Rightarrow> string" where
  "quoteJSONString s = CHR 0x22 # concat (map quoteJSONChar s) @ [CHR 0x22]"

text \<open>\<open>JSONValue\<close> of types.ts, without the number case (no number is serialised by the
  code modelled here).\<close>

datatype JSONValue =
    JSONString string
  | JSONBoolean bool
  | JSONObject "(string \<times> JSONValue) list"
  | JSONArray "JSONValue list"

fun joinWith :: "string \<Rightarrow> string list \<Rightarrow> string" where
  "joinWith sep [] = []"
| "joinWith sep [x] = x"
| "joinWith sep (x # y # ys) = x @ sep @ joinWith sep (y # ys)"

fun JSON_stringify :: "JSONValue \<Rightarrow> string" where
  "JSON_stringify (JSONString s) = quoteJSONString s"
| "JSON_stringify (JSONBoolean b) = (if b then ''true'' else ''false'')"
| "JSON_stringify (JSONObject kvs) =
     ''{'' @ joinWith '','' (map (\<lambda>kv. quoteJSONString (fst kv) @ '':'' @ JSON_stringify (snd kv)) kvs) @ ''}''"
| "JSON_stringify (JSONArray vs) = ''['' @ joinWith '','' (map JSON_stringify vs) @ '']''"

subsection \<open>URLSearchParams\<close>

text \<open>The application/x-www-form-urlencoded serialiser of the URL standard, which
  \<open>URLSearchParams.prototype.toString\<close> runs: a space becomes \<open>+\<close>, the bytes
  \<open>* - . _\<close>, digits and ASCII letters stay, every other byte becomes \<open>%XX\<close>.\<close>

definition urlencodedKeeps :: "char \<Rightarrow> bool" where
  "urlencodedKeeps c \<longleftrightarrow>
     c = CHR ''*'' \<or> c = CHR ''-'' \<or> c = CHR ''.'' \<or> c = CHR ''_''
     \<or> (CHR ''0'' \<le> c \<and> c \<le> CHR ''9'')
     \<or> (CHR ''A'' \<le> c \<and> c \<le> CHR ''Z'')
     \<or> (CHR ''a'' \<le> c \<and> c \<le> CHR ''z'')"

definition urlencodeByte :: "char \<Rightarrow> string" where
  "urlencodeByte c =
     (if c = CHR '' '' then ''+''
      else if urlencodedKeeps c then [c]
      else [CHR ''%'', hexDigitUpper (of_char c div 16), hexDigitUpper (of_char c mod 16)])"

definition urlencode :: "string \<Rightarrow> string" where
  "urlencode s = concat (map urlencodeByte s)"

definition urlencodedSerialize :: "(string \<times> string) list \<Rightarrow> string" where
  "urlencodedSerialize entries =
     joinWith ''&'' (map (\<lambda>e. urlencode (fst e) @ ''='' @ urlencode (snd e)) entries)"

text \<open>Converting a property value to a string, as the \<open>URLSearchParams\<close> constructor does
  for every property of the record it is given: \<open>undefined\<close> becomes the text
  \<open>undefined\<close>.\<close>

definition toUSVString :: "string option \<Rightarrow> string" where
  "toUSVString v = (case v of None \<Rightarrow> ''undefined'' | Some t \<Rightarrow> t)"


section \<open>Data model\<close>

datatype SubscriptionGroupType = OptIn | OptOut

datatype SubscriptionChange = Subscribe | UnSubscribe

datatype SegmentOperator =
    SegmentWithinOperator int
  | SegmentEqualsOperator "string + int"

datatype SegmentNode =
    TraitSegmentNode string string SegmentOperator
  | AndSegmentNode string "string list"
  | OrSegmentNode string "string list"
  | SubscriptionGroupSegmentNode string string

record SegmentDefinition =
  entryNode :: SegmentNode
  nodes :: "SegmentNode list"

datatype ResourceType = Declarative | Internal

record Channel =
  channel_id :: string
  channel_workspaceId :: string
  channel_name :: string

record SubscriptionGroup =
  group_id :: string
  group_workspaceId :: string
  group_name :: string
  group_type :: SubscriptionGroupType
  group_channelId :: string

record Segment =
  segment_id :: string
  segment_workspaceId :: string
  segment_name :: string
  segment_definition :: SegmentDefinition
  segment_subscriptionGroupId :: "string option"
  segment_resourceType :: ResourceType

record SegmentAssignment =
  assignment_workspaceId :: string
  assignment_userId :: string
  assignment_segmentId :: string
  assignment_inSegment :: bool

record Secret =
  secret_workspaceId :: string
  secret_name :: string
  secret_value :: string

record UserProperty =
  userProperty_id :: string
  userProperty_workspaceId :: string
  userProperty_name :: string

record UserPropertyAssignment =
  upa_userPropertyId :: string
  upa_userId :: string
  upa_value :: string

record InsertUserEvent =
  messageId :: string
  messageRaw :: string

text \<open>The data store behind \<open>prisma()\<close> and \<open>insertUserEvents\<close>: one list of rows per
  table, in the order the store returns them, and the event log with the workspace
  each event was appended for.\<close>

record Store =
  channels :: "Channel list"
  subscriptionGroups :: "SubscriptionGroup list"
  segments :: "Segment list"
  segmentAssignments :: "SegmentAssignment list"
  secrets :: "Secret list"
  userProperties :: "UserProperty list"
  userPropertyAssignments :: "UserPropertyAssignment list"
  userEvents :: "(string \<times> InsertUserEvent) list"


section \<open>Constants and helpers that are not among the sources\<close>

text \<open>Modelled from the spec: \<open>SUBSCRIPTION_SECRET_NAME\<close> is imported from
  isomorphic-lib/src/constants, which is not among the sources; the spec's secret store
  is asked for the secret named \<open>subscription-secret\<close>.\<close>

definition SUBSCRIPTION_SECRET_NAME :: string where
  "SUBSCRIPTION_SECRET_NAME = ''subscription-secret''"

text \<open>The value that \<open>generateSubscriptionHash\<close> hands to \<open>generateSecureHash\<close>: the
  object \<open>{u, w, i, k}\<close>.\<close>

record ToHash =
  toHash_u :: string
  toHash_w :: string
  toHash_i :: string
  toHash_k :: string

text \<open>\<open>generateSecureHash\<close> (./crypto) is not among the sources. Every function that
  calls it takes it as its first argument, a function of the key and the value.\<close>

type_synonym SecureHash = "string \<Rightarrow> ToHash \<Rightarrow> string"

text \<open>Modelled from the spec: \<open>generateSecureHash\<close> is missing from the sources; the spec
  asks of it that it be deterministic, keyed, and collision-resistant at cryptographic
  strength. A function of HOL is deterministic; collision resistance is idealised as
  no two inputs (key and value) having the same hash.\<close>

definition collisionFree :: "SecureHash \<Rightarrow> bool" where
  "collisionFree generateSecureHash \<longleftrightarrow>
     (\<forall>key value key' value'.
        generateSecureHash key value = generateSecureHash key' value'
          \<longrightarrow> key = key' \<and> value = value')"

section \<open>The subscription hash and the link\<close>

definition generateSubscriptionHash ::
  "SecureHash \<Rightarrow> string \<Rightarrow> string \<Rightarrow> string \<Rightarrow> string \<Rightarrow> string \<Rightarrow> string" where
  "generateSubscriptionHash generateSecureHash workspaceId userId identifierKey identifier
     subscriptionSecret =
     (let toHash = \<lparr>toHash_u = userId, toHash_w = workspaceId,
                     toHash_i = identifier, toHash_k = identifierKey\<rparr>;
          hash = generateSecureHash subscriptionSecret toHash
      in hash)"

text \<open>The object \<open>params\<close> of \<open>generateSubscriptionChangeUrl\<close>. Its property \<open>s\<close> is
  \<open>undefined\<close> (\<open>None\<close>) when \<open>changedSubscription\<close> is omitted; \<open>sub\<close> is always set.\<close>

record SubscriptionParams =
  params_w :: string
  params_i :: string
  params_ik :: string
  params_h :: string
  params_s :: "string option"
  params_sub :: string

definition subscriptionParams ::
  "SecureHash \<Rightarrow> string \<Rightarrow> string \<Rightarrow> string \<Rightarrow> string \<Rightarrow> string
     \<Rightarrow> string option \<Rightarrow> SubscriptionChange option \<Rightarrow> SubscriptionParams" where
  "subscriptionParams generateSecureHash workspaceId subscriptionSecret userId identifier
     identifierKey changedSubscription subscriptionChange =
     (let hash = generateSubscriptionHash generateSecureHash workspaceId userId identifierKey
                   identifier subscriptionSecret
      in \<lparr>params_w = workspaceId, params_i = identifier, params_ik = identifierKey,
           params_h = hash, params_s = changedSubscription,
           params_sub = (if subscriptionChange = Some Subscribe then ''1'' else ''0'')\<rparr>)"

text \<open>\<open>new URLSearchParams(params)\<close>: one entry per property of the object, in the
  order the object literal lists them, each value converted to a string.\<close>

definition URLSearchParams :: "SubscriptionParams \<Rightarrow> (string \<times> string) list" where
  "URLSearchParams params =
     [(''w'', params_w params), (''i'', params_i params), (''ik'', params_ik params),
      (''h'', params_h params), (''s'', toUSVString (params_s params)),
      (''sub'', params_sub params)]"

text \<open>\<open>SUBSCRIPTION_MANAGEMENT_PAGE\<close> is a constant of isomorphic-lib/src/constants as
  well; the spec gives no value for it, so it is the argument \<open>page\<close>.\<close>

definition generateSubscriptionChangeUrl ::
  "SecureHash \<Rightarrow> string \<Rightarrow> string \<Rightarrow> string \<Rightarrow> string \<Rightarrow> string \<Rightarrow> string
     \<Rightarrow> string option \<Rightarrow> SubscriptionChange option \<Rightarrow> string" where
  "generateSubscriptionChangeUrl generateSecureHash page workspaceId subscriptionSecret userId
     identifier identifierKey changedSubscription subscriptionChange =
     (let params = subscriptionParams generateSecureHash workspaceId subscriptionSecret userId
                     identifier identifierKey changedSubscription subscriptionChange;
          queryString = urlencodedSerialize (URLSearchParams params);
          url = ''/dashboard'' @ page @ ''?'' @ queryString
      in url)"

subsection \<open>Reading a link back\<close>


fun splitOn :: "char \<Rightarrow> string \<Rightarrow> string list" where
  "splitOn sep [] = [[]]"
| "splitOn sep (c # cs) =
     (if c = sep then [] # splitOn sep cs
      else (case splitOn sep cs of [] \<Rightarrow> [[c]] | piece # pieces \<Rightarrow> (c # piece) # pieces))"

definition hexValue :: "char \<Rightarrow> nat option" where
  "hexValue c =
     (if CHR ''0'' \<le> c \<and> c \<le> CHR ''9'' then Some (of_char c - 0x30)
      else if CHR ''A'' \<le> c \<and> c \<le> CHR ''F'' then Some (of_char c - 0x37)
      else if CHR ''a'' \<le> c \<and> c \<le> CHR ''f'' then Some (of_char c - 0x57)
      else None)"

fun percentDecode :: "string \<Rightarrow> string" where
  "percentDecode [] = []"
| "percentDecode (c # cs) =
     (if c = CHR ''%'' then
        (case cs of
           a # b # rest \<Rightarrow>
             (case (hexValue a, hexValue b) of
                (Some hi, Some lo) \<Rightarrow> char_of (16 * hi + lo) # percentDecode rest
              | _ \<Rightarrow> c # percentDecode cs)
         | _ \<Rightarrow> c # percentDecode cs)
      else c # percentDecode cs)"

definition urldecode :: "string \<Rightarrow> string" where
  "urldecode s = percentDecode (map (\<lambda>c. if c = CHR ''+'' then CHR '' '' else c) s)"

definition urlencodedParse :: "string \<Rightarrow> (string \<times> string) list" where
  "urlencodedParse input =
     map (\<lambda>piece. (urldecode (takeWhile (\<lambda>c. c \<noteq> CHR ''='') piece),
                    urldecode (drop 1 (dropWhile (\<lambda>c. c \<noteq> CHR ''='') piece))))
       (filter (\<lambda>piece. piece \<noteq> []) (splitOn CHR ''&'' input))"

section \<open>Looking a user up from a link\<close>

definition secret_findUnique :: "string \<Rightarrow> string \<Rightarrow> Store \<Rightarrow> Secret option \<times> Store" where
  "secret_findUnique name workspaceId db =
     (find (\<lambda>r. secret_name r = name \<and> secret_workspaceId r = workspaceId) (secrets db), db)"

text \<open>\<open>userProperty.findUnique\<close> with its \<open>include\<close>: the property of that workspace and
  name, and with it those of its assignments that have the given value.\<close>

definition userProperty_findUnique ::
  "string \<Rightarrow> string \<Rightarrow> string \<Rightarrow> Store
     \<Rightarrow> (UserProperty \<times> UserPropertyAssignment list) option \<times> Store" where
  "userProperty_findUnique workspaceId name val db =
     (map_option
        (\<lambda>p. (p, filter (\<lambda>a. upa_userPropertyId a = userProperty_id p \<and> upa_value a = val)
                    (userPropertyAssignments db)))
        (find (\<lambda>p. userProperty_workspaceId p = workspaceId \<and> userProperty_name p = name)
           (userProperties db)),
      db)"

text \<open>\<open>ok({ userId })\<close> is \<open>Inr userId\<close>.\<close>

definition lookupUserForSubscriptions ::
  "SecureHash \<Rightarrow> string \<Rightarrow> string \<Rightarrow> string \<Rightarrow> string \<Rightarrow> Store
     \<Rightarrow> (Error + string) Completion \<times> Store" where
  "lookupUserForSubscriptions generateSecureHash workspaceId identifier identifierKey hash db =
     (let (subscriptionSecret, db1) = secret_findUnique SUBSCRIPTION_SECRET_NAME workspaceId db;
          (userProperties, db2) =
             userProperty_findUnique workspaceId identifierKey
               (JSON_stringify (JSONString identifier)) db1;
          userPropertyAssignment =
             (case userProperties of
                None \<Rightarrow> None
              | Some p \<Rightarrow> (case snd p of [] \<Rightarrow> None | a # _ \<Rightarrow> Some a))
      in case userPropertyAssignment of
           None \<Rightarrow> (Returned (Inl (Error ''User not found'')), db2)
         | Some a \<Rightarrow>
             (case subscriptionSecret of
                None \<Rightarrow> (Thrown (Error ''Subscription secret not found''), db2)
              | Some secret \<Rightarrow>
                  (let userId = upa_userId a;
                       expectedHash =
                         generateSubscriptionHash generateSecureHash workspaceId userId
                           identifierKey identifier (secret_value secret)
                   in if expectedHash \<noteq> hash
                      then (Returned (Inl (Error ''Hash mismatch'')), db2)
                      else (Returned (Inr userId), db2))))"


section \<open>The subscription group registry\<close>







section \<open>Audit events\<close>






section \<open>Listing a user's subscriptions\<close>

record UserSubscriptionResource =
  subscription_id :: string
  subscription_name :: string
  subscription_isSubscribed :: bool

text \<open>\<open>subscriptionGroup.findMany\<close> with its \<open>orderBy\<close> and nested \<open>include\<close>: the groups of
  the workspace by ascending name, each with the segments that refer to it, each segment
  with its assignments for the user. Names are compared byte by byte.\<close>

definition subscriptionGroup_findMany ::
  "string \<Rightarrow> string \<Rightarrow> Store
     \<Rightarrow> (SubscriptionGroup \<times> (Segment \<times> SegmentAssignment list) list) list \<times> Store" where
  "subscriptionGroup_findMany workspaceId userId db =
     (map (\<lambda>g. (g,
                 map (\<lambda>s. (s, filter (\<lambda>a. assignment_segmentId a = segment_id s
                                             \<and> assignment_userId a = userId)
                                  (segmentAssignments db)))
                   (filter (\<lambda>s. segment_subscriptionGroupId s = Some (group_id g))
                      (segments db))))
        (sort_key group_name
           (filter (\<lambda>g. group_workspaceId g = workspaceId) (subscriptionGroups db))),
      db)"

text \<open>One round of the \<open>for\<close> loop: \<open>continue\<close> leaves \<open>subscriptions\<close> as it is, \<open>push\<close>
  adds at the end.\<close>

definition getUserSubscriptions_step ::
  "SubscriptionGroup \<times> (Segment \<times> SegmentAssignment list) list
     \<Rightarrow> UserSubscriptionResource list \<Rightarrow> UserSubscriptionResource list" where
  "getUserSubscriptions_step subscriptionGroup subscriptions =
     (case snd subscriptionGroup of
        [] \<Rightarrow> subscriptions
      | segment # _ \<Rightarrow>
          (let inSegment =
                 (case snd segment of [] \<Rightarrow> False | a # _ \<Rightarrow> assignment_inSegment a = True)
           in subscriptions @
                [\<lparr>subscription_id = group_id (fst subscriptionGroup),
                  subscription_name = group_name (fst subscriptionGroup),
                  subscription_isSubscribed = inSegment\<rparr>]))"

definition getUserSubscriptions ::
  "string \<Rightarrow> string \<Rightarrow> Store \<Rightarrow> UserSubscriptionResource list \<times> Store" where
  "getUserSubscriptions workspaceId userId db =
     (let (subscriptionGroups', db1) = subscriptionGroup_findMany workspaceId userId db;
          subscriptions = fold getUserSubscriptions_step subscriptionGroups' []
      in (subscriptions, db1))"

section \<open>Updating a user's subscriptions\<close>







section \<open>States the module can reach\<close>





section \<open>Segments of a group\<close>


text \<open>The segment that the listing reads for a group: the first one that refers to it.\<close>

definition groupSegment :: "Store \<Rightarrow> SubscriptionGroup \<Rightarrow> Segment option" where
  "groupSegment db g =
     find (\<lambda>s. segment_subscriptionGroupId s = Some (group_id g)) (segments db)"


section \<open>Example inputs\<close>

text \<open>A function of key and value that gives different texts for different inputs. It is
  used in the worked examples only, where some function has to stand for the hash.\<close>

definition exampleSecureHash :: SecureHash where
  "exampleSecureHash key value =
     urlencodedSerialize
       [(key, toHash_u value), (toHash_w value, toHash_i value), (toHash_k value, [])]"

text \<open>A store with two workspaces that have an email channel each; workspace \<open>ws1\<close> has
  its subscription secret and one user, \<open>u1\<close>, whose email is \<open>a@b.com\<close>.\<close>

definition exampleStore :: Store where
  "exampleStore =
     \<lparr>channels =
        [\<lparr>channel_id = ''c1'', channel_workspaceId = ''ws1'', channel_name = ''email''\<rparr>,
         \<lparr>channel_id = ''c2'', channel_workspaceId = ''ws2'', channel_name = ''email''\<rparr>],
      subscriptionGroups = [],
      segments = [],
      segmentAssignments = [],
      secrets =
        [\<lparr>secret_workspaceId = ''ws1'', secret_name = ''subscription-secret'',
          secret_value = ''s3cr3t''\<rparr>],
      userProperties =
        [\<lparr>userProperty_id = ''p1'', userProperty_workspaceId = ''ws1'',
          userProperty_name = ''email''\<rparr>],
      userPropertyAssignments =
        [\<lparr>upa_userPropertyId = ''p1'', upa_userId = ''u1'',
          upa_value = JSON_stringify (JSONString ''a@b.com'')\<rparr>],
      userEvents = []\<rparr>"



text \<open>A store for the listing: workspace \<open>ws1\<close> has the groups \<open>Zeta\<close>, \<open>News\<close> and \<open>Orphan\<close>
  (stored in that order); \<open>Orphan\<close> has no segment; user \<open>u1\<close> is in the segment of \<open>News\<close>
  and has a row that says not in the segment of \<open>Zeta\<close>.\<close>

definition exampleListingStore :: Store where
  "exampleListingStore =
     exampleStore
       \<lparr>subscriptionGroups :=
          [\<lparr>group_id = ''g2'', group_workspaceId = ''ws1'', group_name = ''Zeta'',
            group_type = OptIn, group_channelId = ''c1''\<rparr>,
           \<lparr>group_id = ''g1'', group_workspaceId = ''ws1'', group_name = ''News'',
            group_type = OptOut, group_channelId = ''c1''\<rparr>,
           \<lparr>group_id = ''g3'', group_workspaceId = ''ws1'', group_name = ''Orphan'',
            group_type = OptOut, group_channelId = ''c1''\<rparr>],
        segments :=
          [\<lparr>segment_id = ''s1'', segment_workspaceId = ''ws1'',
            segment_name = ''subscriptionGroup-g1'',
            segment_definition =
              \<lparr>entryNode = SubscriptionGroupSegmentNode ''1'' ''g1'', nodes = []\<rparr>,
            segment_subscriptionGroupId = Some ''g1'',
            segment_resourceType = Internal\<rparr>,
           \<lparr>segment_id = ''s2'', segment_workspaceId = ''ws1'',
            segment_name = ''subscriptionGroup-g2'',
            segment_definition =
              \<lparr>entryNode = SubscriptionGroupSegmentNode ''1'' ''g2'', nodes = []\<rparr>,
            segment_subscriptionGroupId = Some ''g2'',
            segment_resourceType = Internal\<rparr>],
        segmentAssignments :=
          [\<lparr>assignment_workspaceId = ''ws1'', assignment_userId = ''u1'',
            assignment_segmentId = ''s1'', assignment_inSegment = True\<rparr>,
           \<lparr>assignment_workspaceId = ''ws1'', assignment_userId = ''u1'',
            assignment_segmentId = ''s2'', assignment_inSegment = False\<rparr>]\<rparr>"

section \<open>Reading back what the serialiser wrote\<close>

lemma hex_table:
  "list_all (\<lambda>n. hexValue (hexDigitUpper n) = Some n \<and> hexDigitUpper n \<noteq> CHR ''+''
      \<and> hexDigitUpper n \<noteq> CHR ''&'' \<and> hexDigitUpper n \<noteq> CHR ''='') [0..<16]"
  by (simp add: upt_rec hexValue_def hexDigitUpper_def less_eq_char_def)

lemma hexDigitUpper_props:
  assumes "n < 16"
  shows "hexValue (hexDigitUpper n) = Some n" "hexDigitUpper n \<noteq> CHR ''+''"
    "hexDigitUpper n \<noteq> CHR ''&''" "hexDigitUpper n \<noteq> CHR ''=''"
  using assms hex_table by (simp_all add: list_all_iff)

lemma of_char_div16: "(of_char c :: nat) div 16 < 16"
  by (rule less_mult_imp_div_less) simp

lemma urldecode_urlencodeByte: "urldecode (urlencodeByte c @ t) = c # urldecode t"
proof -
  let ?hi = "(of_char c :: nat) div 16" and ?lo = "(of_char c :: nat) mod 16"
  have hi: "?hi < 16" by (rule of_char_div16)
  have lo: "?lo < 16" by simp
  show ?thesis
    using hexDigitUpper_props[OF hi] hexDigitUpper_props[OF lo]
    by (auto simp: urldecode_def urlencodeByte_def urlencodedKeeps_def less_eq_char_def)
qed

lemma urldecode_urlencode_append: "urldecode (urlencode s @ t) = s @ urldecode t"
  by (induction s) (simp_all add: urlencode_def urldecode_urlencodeByte)

lemma urldecode_Nil: "urldecode [] = []"
  by (simp add: urldecode_def)

lemma urldecode_urlencode: "urldecode (urlencode s) = s"
  using urldecode_urlencode_append[of s "[]"] by (simp add: urldecode_Nil)


lemma urlencodeByte_no_sep: "CHR ''&'' \<notin> set (urlencodeByte c) \<and> CHR ''='' \<notin> set (urlencodeByte c)"
proof -
  let ?hi = "(of_char c :: nat) div 16" and ?lo = "(of_char c :: nat) mod 16"
  have hi: "?hi < 16" by (rule of_char_div16)
  have lo: "?lo < 16" by simp
  show ?thesis
    using hexDigitUpper_props[OF hi] hexDigitUpper_props[OF lo]
    by (auto simp: urlencodeByte_def urlencodedKeeps_def less_eq_char_def)
qed

lemma urlencode_no_sep: "CHR ''&'' \<notin> set (urlencode s)" "CHR ''='' \<notin> set (urlencode s)"
  using urlencodeByte_no_sep by (auto simp: urlencode_def)

lemma splitOn_append_sep:
  "sep \<notin> set p \<Longrightarrow> splitOn sep (p @ sep # rest) = p # splitOn sep rest"
  by (induction p) (auto split: list.splits)

lemma splitOn_no_sep: "sep \<notin> set p \<Longrightarrow> splitOn sep p = [p]"
  by (induction p) (auto split: list.splits)

lemma splitOn_joinWith:
  assumes "pieces \<noteq> []" "\<forall>p \<in> set pieces. sep \<notin> set p"
  shows "splitOn sep (joinWith [sep] pieces) = pieces"
  using assms
proof (induction "[sep]" pieces rule: joinWith.induct)
  case 1
  then show ?case by simp
next
  case (2 x)
  then show ?case by (simp add: splitOn_no_sep)
next
  case (3 x y ys)
  then show ?case by (simp add: splitOn_append_sep)
qed

lemma takeWhile_sep: "sep \<notin> set p \<Longrightarrow> takeWhile (\<lambda>c. c \<noteq> sep) (p @ sep # q) = p"
  by (induction p) auto

lemma dropWhile_sep: "sep \<notin> set p \<Longrightarrow> dropWhile (\<lambda>c. c \<noteq> sep) (p @ sep # q) = sep # q"
  by (induction p) auto

lemma parse_piece:
  "urldecode (takeWhile (\<lambda>c. c \<noteq> CHR ''='') (urlencode k @ CHR ''='' # urlencode v)) = k"
  "urldecode (drop (Suc 0) (dropWhile (\<lambda>c. c \<noteq> CHR ''='') (urlencode k @ CHR ''='' # urlencode v))) = v"
  using urlencode_no_sep(2)[of k]
  by (simp_all add: takeWhile_sep dropWhile_sep urldecode_urlencode)

lemma urlencodedParse_Serialize: "urlencodedParse (urlencodedSerialize entries) = entries"
proof (cases entries)
  case Nil
  then show ?thesis by (simp add: urlencodedParse_def urlencodedSerialize_def)
next
  case (Cons e es)
  let ?pieces = "map (\<lambda>e. urlencode (fst e) @ ''='' @ urlencode (snd e)) entries"
  have ne: "?pieces \<noteq> []" using Cons by simp
  have nosep: "\<forall>p \<in> set ?pieces. CHR ''&'' \<notin> set p"
    using urlencode_no_sep(1) by auto
  have split: "splitOn CHR ''&'' (urlencodedSerialize entries) = ?pieces"
    unfolding urlencodedSerialize_def using splitOn_joinWith[OF ne nosep] by simp
  have nonempty: "filter (\<lambda>piece. piece \<noteq> []) ?pieces = ?pieces"
    by (simp add: filter_id_conv)
  show ?thesis
    unfolding urlencodedParse_def split nonempty
    by (simp add: o_def parse_piece map_idI)
qed


lemma generateSubscriptionChangeUrl_serialised:
  "generateSubscriptionChangeUrl gsh page workspaceId secret userId identifier identifierKey
       changedSubscription subscriptionChange
     = ''/dashboard'' @ page @ ''?'' @
       urlencodedSerialize (URLSearchParams (subscriptionParams gsh workspaceId secret userId
          identifier identifierKey changedSubscription subscriptionChange))"
  by (simp add: generateSubscriptionChangeUrl_def Let_def)


section \<open>The example hash has no collisions\<close>

lemma exampleSecureHash_collisionFree: "collisionFree exampleSecureHash"
  unfolding collisionFree_def
proof (intro allI impI)
  fix key v key' v'
  assume "exampleSecureHash key v = exampleSecureHash key' v'"
  then have "urlencodedParse (exampleSecureHash key v) = urlencodedParse (exampleSecureHash key' v')"
    by simp
  then have "[(key, toHash_u v), (toHash_w v, toHash_i v), (toHash_k v, [])]
      = [(key', toHash_u v'), (toHash_w v', toHash_i v'), (toHash_k v', [])]"
    unfolding exampleSecureHash_def urlencodedParse_Serialize .
  then show "key = key' \<and> v = v'" by simp
qed

section \<open>Lookup and verification\<close>

lemma snd_secret_findUnique: "snd (secret_findUnique name workspaceId db) = db"
  by (simp add: secret_findUnique_def)

lemma snd_userProperty_findUnique: "snd (userProperty_findUnique workspaceId name v db) = db"
  by (simp add: userProperty_findUnique_def)

lemma example_secret:
  "fst (secret_findUnique SUBSCRIPTION_SECRET_NAME ''ws1'' exampleStore)
     = Some \<lparr>secret_workspaceId = ''ws1'', secret_name = ''subscription-secret'',
              secret_value = ''s3cr3t''\<rparr>"
  by (simp add: secret_findUnique_def SUBSCRIPTION_SECRET_NAME_def exampleStore_def)

lemma example_assignment:
  "fst (userProperty_findUnique ''ws1'' ''email'' (JSON_stringify (JSONString ''a@b.com''))
          exampleStore)
     = Some (\<lparr>userProperty_id = ''p1'', userProperty_workspaceId = ''ws1'',
               userProperty_name = ''email''\<rparr>,
             [\<lparr>upa_userPropertyId = ''p1'', upa_userId = ''u1'',
               upa_value = JSON_stringify (JSONString ''a@b.com'')\<rparr>])"
  by (simp add: userProperty_findUnique_def exampleStore_def)



lemma generateSubscriptionHash_eq_iff:
  assumes "collisionFree gsh"
  shows "generateSubscriptionHash gsh w u k i s = generateSubscriptionHash gsh w' u' k' i' s'
     \<longleftrightarrow> w = w' \<and> u = u' \<and> k = k' \<and> i = i' \<and> s = s'"
  using assms unfolding collisionFree_def generateSubscriptionHash_def Let_def
  by (metis ToHash.ext_inject)

text \<open>
  C2. The subscription hash is a function of its five inputs, and it tells them apart.
  For a hash function without collisions (the spec's collision resistance, idealised),
  two calls of \<open>generateSubscriptionHash\<close> give the same hash exactly when workspace id,
  user id, identifier key, identifier and secret all agree: equal inputs give equal
  hashes, and a change of any one field gives another hash. Hence, when
  \<open>lookupUserForSubscriptions\<close> finds the secret and an assignment, and the hash it is given
  was made from a tuple that differs in some field from the one it recomputes the hash
  from, it returns the error \<open>Hash mismatch\<close>.
\<close>

theorem subscription_hash_sensitive:
  assumes "collisionFree gsh"
  shows "(generateSubscriptionHash gsh w u k i s = generateSubscriptionHash gsh w' u' k' i' s'
            \<longleftrightarrow> w = w' \<and> u = u' \<and> k = k' \<and> i = i' \<and> s = s')
     \<and> (fst (secret_findUnique SUBSCRIPTION_SECRET_NAME w db) = Some sec
          \<and> fst (userProperty_findUnique w k (JSON_stringify (JSONString i)) db)
                = Some (p, a # as)
          \<and> (w, upa_userId a, k, i, secret_value sec) \<noteq> (w', u', k', i', s')
         \<longrightarrow> fst (lookupUserForSubscriptions gsh w i k
                    (generateSubscriptionHash gsh w' u' k' i' s') db)
               = Returned (Inl (Error ''Hash mismatch'')))"
proof (intro conjI impI)
  show "generateSubscriptionHash gsh w u k i s = generateSubscriptionHash gsh w' u' k' i' s'
            \<longleftrightarrow> w = w' \<and> u = u' \<and> k = k' \<and> i = i' \<and> s = s'"
    by (rule generateSubscriptionHash_eq_iff[OF assms])
next
  assume h: "fst (secret_findUnique SUBSCRIPTION_SECRET_NAME w db) = Some sec
          \<and> fst (userProperty_findUnique w k (JSON_stringify (JSONString i)) db)
                = Some (p, a # as)
          \<and> (w, upa_userId a, k, i, secret_value sec) \<noteq> (w', u', k', i', s')"
  then have "generateSubscriptionHash gsh w (upa_userId a) k i (secret_value sec)
      \<noteq> generateSubscriptionHash gsh w' u' k' i' s'"
    by (simp add: generateSubscriptionHash_eq_iff[OF assms])
  with h show "fst (lookupUserForSubscriptions gsh w i k
                    (generateSubscriptionHash gsh w' u' k' i' s') db)
               = Returned (Inl (Error ''Hash mismatch''))"
    by (simp add: lookupUserForSubscriptions_def Let_def split_beta
        snd_secret_findUnique snd_userProperty_findUnique)
qed

theorem subscription_hash_sensitive_witness:
  "collisionFree exampleSecureHash
   \<and> generateSubscriptionHash exampleSecureHash ''ws1'' ''u1'' ''email'' ''a@b.com'' ''s3cr3t''
       \<noteq> generateSubscriptionHash exampleSecureHash ''ws1'' ''u1'' ''email'' ''a@b.com'' ''other''
   \<and> fst (lookupUserForSubscriptions exampleSecureHash ''ws1'' ''a@b.com'' ''email''
            (generateSubscriptionHash exampleSecureHash ''ws1'' ''u1'' ''email'' ''a@b.com''
               ''other'')
            exampleStore)
       = Returned (Inl (Error ''Hash mismatch''))"
proof -
  let ?sec = "\<lparr>secret_workspaceId = ''ws1'', secret_name = ''subscription-secret'',
               secret_value = ''s3cr3t''\<rparr>"
  let ?p = "\<lparr>userProperty_id = ''p1'', userProperty_workspaceId = ''ws1'',
             userProperty_name = ''email''\<rparr>"
  let ?a = "\<lparr>upa_userPropertyId = ''p1'', upa_userId = ''u1'',
             upa_value = JSON_stringify (JSONString ''a@b.com'')\<rparr>"
  note inst =
    subscription_hash_sensitive[OF exampleSecureHash_collisionFree,
      where w = "''ws1''" and u = "''u1''" and k = "''email''" and i = "''a@b.com''"
        and s = "''s3cr3t''" and w' = "''ws1''" and u' = "''u1''" and k' = "''email''"
        and i' = "''a@b.com''" and s' = "''other''" and db = exampleStore
        and sec = ?sec and p = ?p and a = ?a and as = "[]"]
  show ?thesis
    using exampleSecureHash_collisionFree inst example_secret example_assignment
    by simp
qed

text \<open>
  C4, as the claim states it, fails: in the example store workspace \<open>ws2\<close> has no
  subscription secret and no user property, and the lookup there returns the typed error
  \<open>User not found\<close>; it does not throw.
\<close>

theorem missing_secret_not_always_thrown:
  "fst (secret_findUnique SUBSCRIPTION_SECRET_NAME ''ws2'' exampleStore) = None
   \<and> fst (lookupUserForSubscriptions exampleSecureHash ''ws2'' ''a@b.com'' ''email'' ''h''
            exampleStore)
       = Returned (Inl (Error ''User not found''))"
  by (simp add: lookupUserForSubscriptions_def secret_findUnique_def
      userProperty_findUnique_def exampleStore_def SUBSCRIPTION_SECRET_NAME_def)

text \<open>
  C4, amended. When the workspace's subscription secret is absent,
  \<open>lookupUserForSubscriptions\<close> throws \<open>Subscription secret not found\<close> if the store gives an
  assignment for the property and value, and returns the typed error \<open>User not found\<close> if
  it gives none: the user is looked for first.
\<close>

theorem missing_secret_thrown_after_user_found:
  assumes "fst (secret_findUnique SUBSCRIPTION_SECRET_NAME workspaceId db) = None"
  shows "fst (lookupUserForSubscriptions gsh workspaceId identifier identifierKey hash db)
     = (case fst (userProperty_findUnique workspaceId identifierKey
                    (JSON_stringify (JSONString identifier)) db) of
          None \<Rightarrow> Returned (Inl (Error ''User not found''))
        | Some found \<Rightarrow>
            (case snd found of
               [] \<Rightarrow> Returned (Inl (Error ''User not found''))
             | a # _ \<Rightarrow> Thrown (Error ''Subscription secret not found'')))"
  using assms
  by (simp add: lookupUserForSubscriptions_def Let_def split_beta
      snd_secret_findUnique snd_userProperty_findUnique split: option.split list.split)

theorem missing_secret_thrown_after_user_found_witness:
  "fst (secret_findUnique SUBSCRIPTION_SECRET_NAME ''ws1'' (exampleStore\<lparr>secrets := []\<rparr>)) = None
   \<and> fst (lookupUserForSubscriptions exampleSecureHash ''ws1'' ''a@b.com'' ''email'' ''h''
            (exampleStore\<lparr>secrets := []\<rparr>))
       = Thrown (Error ''Subscription secret not found'')"
proof -
  have none: "fst (secret_findUnique SUBSCRIPTION_SECRET_NAME ''ws1''
                     (exampleStore\<lparr>secrets := []\<rparr>)) = None"
    by (simp add: secret_findUnique_def)
  have some: "fst (userProperty_findUnique ''ws1'' ''email''
                     (JSON_stringify (JSONString ''a@b.com'')) (exampleStore\<lparr>secrets := []\<rparr>))
     = Some (\<lparr>userProperty_id = ''p1'', userProperty_workspaceId = ''ws1'',
               userProperty_name = ''email''\<rparr>,
             [\<lparr>upa_userPropertyId = ''p1'', upa_userId = ''u1'',
               upa_value = JSON_stringify (JSONString ''a@b.com'')\<rparr>])"
    by (simp add: userProperty_findUnique_def exampleStore_def)
  show ?thesis
    using none some
      missing_secret_thrown_after_user_found[OF none, of exampleSecureHash "''a@b.com''"
        "''email''" "''h''"]
    by simp
qed

lemma entries_without_change:
  "URLSearchParams (subscriptionParams gsh workspaceId secret userId identifier identifierKey
       None None)
     = [(''w'', workspaceId), (''i'', identifier), (''ik'', identifierKey),
        (''h'', generateSubscriptionHash gsh workspaceId userId identifierKey identifier secret),
        (''s'', ''undefined''), (''sub'', ''0'')]"
  by (simp add: URLSearchParams_def subscriptionParams_def toUSVString_def Let_def)

lemma entries_with_change:
  "URLSearchParams (subscriptionParams gsh workspaceId secret userId identifier identifierKey
       (Some subscriptionGroupId) (Some change))
     = [(''w'', workspaceId), (''i'', identifier), (''ik'', identifierKey),
        (''h'', generateSubscriptionHash gsh workspaceId userId identifierKey identifier secret),
        (''s'', subscriptionGroupId),
        (''sub'', case change of Subscribe \<Rightarrow> ''1'' | UnSubscribe \<Rightarrow> ''0'')]"
  by (cases change)
    (simp_all add: URLSearchParams_def subscriptionParams_def toUSVString_def Let_def)

text \<open>
  C8, at the failing input. Called without a single-group change, the function still
  writes \<open>s\<close> and \<open>sub\<close> into the query: \<open>s=undefined\<close> and \<open>sub=0\<close>.
\<close>

theorem url_without_change_has_s_and_sub:
  "generateSubscriptionChangeUrl gsh page ''ws1'' ''s3cr3t'' ''u1'' ''a@b.com'' ''email'' None None
     = ''/dashboard'' @ page @ ''?w=ws1&i=a%40b.com&ik=email&h='' @
       urlencode (gsh ''s3cr3t'' \<lparr>toHash_u = ''u1'', toHash_w = ''ws1'',
                                   toHash_i = ''a@b.com'', toHash_k = ''email''\<rparr>) @
       ''&s=undefined&sub=0''"
  by (simp add: generateSubscriptionChangeUrl_def subscriptionParams_def URLSearchParams_def
      generateSubscriptionHash_def urlencodedSerialize_def toUSVString_def urlencode_def
      urlencodeByte_def urlencodedKeeps_def hexDigitUpper_def less_eq_char_def Let_def)

text \<open>
  C9. The user id enters the link through the hash only. The URL is the fixed path and
  the serialised entries of the query, which a reader parses back as they are; and for
  two calls that differ in the user id alone, the entries other than \<open>h\<close> are the same.
\<close>

theorem link_shows_userId_in_hash_only:
  "generateSubscriptionChangeUrl gsh page workspaceId secret userId identifier identifierKey
       changedSubscription subscriptionChange
     = ''/dashboard'' @ page @ ''?'' @
       urlencodedSerialize (URLSearchParams (subscriptionParams gsh workspaceId secret userId
          identifier identifierKey changedSubscription subscriptionChange))
   \<and> urlencodedParse (urlencodedSerialize (URLSearchParams (subscriptionParams gsh workspaceId
          secret userId identifier identifierKey changedSubscription subscriptionChange)))
     = URLSearchParams (subscriptionParams gsh workspaceId secret userId identifier
          identifierKey changedSubscription subscriptionChange)
   \<and> filter (\<lambda>e. fst e \<noteq> ''h'')
        (URLSearchParams (subscriptionParams gsh workspaceId secret userId identifier
           identifierKey changedSubscription subscriptionChange))
     = filter (\<lambda>e. fst e \<noteq> ''h'')
        (URLSearchParams (subscriptionParams gsh workspaceId secret userId' identifier
           identifierKey changedSubscription subscriptionChange))"
  by (simp add: generateSubscriptionChangeUrl_serialised urlencodedParse_Serialize)
    (simp add: URLSearchParams_def subscriptionParams_def Let_def)

text \<open>
  C10. \<open>lookupUserForSubscriptions\<close> leaves the store as it found it, whatever it returns
  or throws.
\<close>

theorem lookup_leaves_store:
  "snd (lookupUserForSubscriptions gsh workspaceId identifier identifierKey hash db) = db"
  by (simp add: lookupUserForSubscriptions_def snd_secret_findUnique
      snd_userProperty_findUnique Let_def split_beta split: option.split list.split)

section \<open>The registry\<close>












lemma filter_key_distinct:
  "distinct (map key xs) \<Longrightarrow> x \<in> set xs \<Longrightarrow> filter (\<lambda>y. key y = key x) xs = [x]"
proof (induction xs)
  case Nil
  then show ?case by simp
next
  case (Cons a xs)
  show ?case
  proof (cases "a = x")
    case True
    with Cons.prems have "\<forall>y \<in> set xs. key y \<noteq> key x" by (auto simp: image_iff)
    then have "filter (\<lambda>y. key y = key x) xs = []" by (simp add: filter_empty_conv)
    with True show ?thesis by simp
  next
    case False
    with Cons.prems have "x \<in> set xs" "key a \<noteq> key x" by auto
    with Cons show ?thesis by simp
  qed
qed


















section \<open>Updating subscriptions\<close>





























section \<open>Listing subscriptions\<close>

lemma fold_getUserSubscriptions_step:
  "fold getUserSubscriptions_step groups acc
     = acc @ concat (map (\<lambda>sg. getUserSubscriptions_step sg []) groups)"
proof (induction groups arbitrary: acc)
  case Nil
  then show ?case by simp
next
  case (Cons sg sgs)
  have "getUserSubscriptions_step sg acc @ rest
      = acc @ getUserSubscriptions_step sg [] @ rest" for rest
    by (simp add: getUserSubscriptions_step_def Let_def split: list.split)
  then show ?case by (simp only: fold_Cons comp_apply Cons.IH list.map concat.simps)
qed

lemma find_as_filter:
  "find P xs = (case filter P xs of [] \<Rightarrow> None | x # _ \<Rightarrow> Some x)"
  by (induction xs) auto

lemma first_assignment:
  assumes "distinct (map (\<lambda>a. (assignment_userId a, assignment_segmentId a)) rows)"
  shows "(case filter (\<lambda>a. assignment_segmentId a = sid \<and> assignment_userId a = userId) rows of
            [] \<Rightarrow> False | a # _ \<Rightarrow> assignment_inSegment a = True)
     \<longleftrightarrow> (\<exists>a \<in> set rows. assignment_userId a = userId \<and> assignment_segmentId a = sid
                          \<and> assignment_inSegment a)"
proof (cases "\<exists>a \<in> set rows. assignment_userId a = userId \<and> assignment_segmentId a = sid")
  case False
  then have "filter (\<lambda>a. assignment_segmentId a = sid \<and> assignment_userId a = userId) rows = []"
    by (auto simp: filter_empty_conv)
  with False show ?thesis by auto
next
  case True
  then obtain a where a: "a \<in> set rows" "assignment_userId a = userId"
    "assignment_segmentId a = sid" by blast
  have "filter (\<lambda>y. assignment_segmentId y = sid \<and> assignment_userId y = userId) rows
      = filter (\<lambda>y. (assignment_userId y, assignment_segmentId y)
                      = (assignment_userId a, assignment_segmentId a)) rows"
    by (rule filter_cong[OF refl]) (auto simp: a(2,3))
  also have "\<dots> = [a]" by (rule filter_key_distinct[OF assms a(1)])
  finally have only:
    "filter (\<lambda>y. assignment_segmentId y = sid \<and> assignment_userId y = userId) rows = [a]" .
  have same: "b = a"
    if "b \<in> set rows" "assignment_userId b = userId" "assignment_segmentId b = sid" for b
  proof -
    from that have "b \<in> set (filter (\<lambda>y. assignment_segmentId y = sid
        \<and> assignment_userId y = userId) rows)" by simp
    then show ?thesis unfolding only by simp
  qed
  have "(\<exists>b \<in> set rows. assignment_userId b = userId \<and> assignment_segmentId b = sid
                          \<and> assignment_inSegment b) \<longleftrightarrow> assignment_inSegment a"
    using a same by blast
  then show ?thesis unfolding only by simp
qed

text \<open>
  C7. \<open>getUserSubscriptions\<close> lists the groups of the workspace that have a segment, by
  ascending name. (The store is taken to hold at most one assignment row per user and
  segment, which the unique key of the table gives when a segment belongs to one
  workspace.) The result has, for each subscription group of the workspace in ascending
  order of name, no entry when no segment refers to the group, and otherwise the entry
  with the group's id and name whose \<open>isSubscribed\<close> is true exactly when the store holds
  an assignment of the user to the group's segment with \<open>inSegment\<close> true; no row, or a
  row with \<open>inSegment\<close> false, gives false. The names in the result ascend.
\<close>

theorem listing_of_subscriptions:
  assumes "distinct (map (\<lambda>a. (assignment_userId a, assignment_segmentId a))
                       (segmentAssignments db))"
  shows "fst (getUserSubscriptions workspaceId userId db)
       = concat (map (\<lambda>g. (case groupSegment db g of
                               None \<Rightarrow> []
                             | Some segment \<Rightarrow>
                                 [\<lparr>subscription_id = group_id g,
                                   subscription_name = group_name g,
                                   subscription_isSubscribed =
                                     (\<exists>a \<in> set (segmentAssignments db).
                                        assignment_userId a = userId
                                        \<and> assignment_segmentId a = segment_id segment
                                        \<and> assignment_inSegment a)\<rparr>]))
                   (sort_key group_name
                      (filter (\<lambda>g. group_workspaceId g = workspaceId)
                         (subscriptionGroups db))))
     \<and> sorted (map subscription_name (fst (getUserSubscriptions workspaceId userId db)))"
proof -
  let ?groups = "sort_key group_name
                   (filter (\<lambda>g. group_workspaceId g = workspaceId) (subscriptionGroups db))"
  let ?entry = "\<lambda>g. (case groupSegment db g of
                               None \<Rightarrow> []
                             | Some segment \<Rightarrow>
                                 [\<lparr>subscription_id = group_id g,
                                   subscription_name = group_name g,
                                   subscription_isSubscribed =
                                     (\<exists>a \<in> set (segmentAssignments db).
                                        assignment_userId a = userId
                                        \<and> assignment_segmentId a = segment_id segment
                                        \<and> assignment_inSegment a)\<rparr>])"
  have step: "getUserSubscriptions_step
       (g, map (\<lambda>s. (s, filter (\<lambda>a. assignment_segmentId a = segment_id s
                                             \<and> assignment_userId a = userId)
                                  (segmentAssignments db)))
                   (filter (\<lambda>s. segment_subscriptionGroupId s = Some (group_id g))
                      (segments db))) [] = ?entry g" for g
    unfolding getUserSubscriptions_step_def groupSegment_def find_as_filter
    by (simp add: first_assignment[OF assms] Let_def split: list.split)
  have result: "fst (getUserSubscriptions workspaceId userId db) = concat (map ?entry ?groups)"
    by (simp add: getUserSubscriptions_def subscriptionGroup_findMany_def
        fold_getUserSubscriptions_step o_def step)
  have names: "map subscription_name (concat (map ?entry gs))
      = map group_name (filter (\<lambda>g. groupSegment db g \<noteq> None) gs)" for gs
    by (induction gs) (auto split: option.split)
  have "sorted (map group_name ?groups)" by simp
  then have "sorted (map group_name (filter (\<lambda>g. groupSegment db g \<noteq> None) ?groups))"
    by (rule sorted_filter)
  with result names show ?thesis by simp
qed

lemma example_sorted:
  "sort_key group_name (filter (\<lambda>g. group_workspaceId g = ''ws1'') (subscriptionGroups exampleListingStore))
   = [\<lparr>group_id = ''g1'', group_workspaceId = ''ws1'', group_name = ''News'',
            group_type = OptOut, group_channelId = ''c1''\<rparr>,
      \<lparr>group_id = ''g3'', group_workspaceId = ''ws1'', group_name = ''Orphan'',
            group_type = OptOut, group_channelId = ''c1''\<rparr>,
      \<lparr>group_id = ''g2'', group_workspaceId = ''ws1'', group_name = ''Zeta'',
            group_type = OptIn, group_channelId = ''c1''\<rparr>]"
  by (simp add: exampleListingStore_def less_eq_char_def less_char_def)

theorem listing_of_subscriptions_witness:
  "distinct (map (\<lambda>a. (assignment_userId a, assignment_segmentId a))
               (segmentAssignments exampleListingStore))
   \<and> fst (getUserSubscriptions ''ws1'' ''u1'' exampleListingStore)
       = [\<lparr>subscription_id = ''g1'', subscription_name = ''News'',
           subscription_isSubscribed = True\<rparr>,
          \<lparr>subscription_id = ''g2'', subscription_name = ''Zeta'',
           subscription_isSubscribed = False\<rparr>]"
proof -
  have d: "distinct (map (\<lambda>a. (assignment_userId a, assignment_segmentId a))
               (segmentAssignments exampleListingStore))"
    by (simp add: exampleListingStore_def)
  from listing_of_subscriptions[OF d, of "''ws1''" "''u1''"] d
  show ?thesis
    unfolding example_sorted
    by (simp add: groupSegment_def exampleListingStore_def)
qed

end
